theory Spec2Isabelle
  imports Complex_Main
begin

section \<open>Tensors\<close>

text \<open>
  The script \<^verbatim>\<open>train.py\<close> works on torch tensors. A two-dimensional tensor is modelled
  by its shape and its rows, a three-dimensional one by its shape and its slices along
  the first axis. The entries are the values of the tensor's floating-point type, of an
  arbitrary type \<open>'a\<close> here. A call that raises in Python returns an \<open>error\<close>.
\<close>

datatype error = IndexError | RuntimeError | ValueError

record 'a tensor2 =
  shape0 :: nat
  shape1 :: nat
  rows :: "'a list list"

record 'a tensor3 =
  dim0 :: nat
  dim1 :: nat
  dim2 :: nat
  slices :: "'a list list list"

definition wf2 :: "'a tensor2 \<Rightarrow> bool" where
  "wf2 T = (length (rows T) = shape0 T \<and> list_all (\<lambda>r. length r = shape1 T) (rows T))"


text \<open>\<^verbatim>\<open>torch.zeros(k, n, f)\<close>, for sizes that are not negative.\<close>

definition zeros :: "nat \<Rightarrow> nat \<Rightarrow> nat \<Rightarrow> ('a::zero) tensor3" where
  "zeros k n f = \<lparr>dim0 = k, dim1 = n, dim2 = f,
     slices = replicate k (replicate n (replicate f 0))\<rparr>"

text \<open>\<^verbatim>\<open>outs[i]\<close> read, for an index that is not negative.\<close>

definition getitem :: "'a tensor3 \<Rightarrow> nat \<Rightarrow> error + 'a tensor2" where
  "getitem outs i =
     (if i < dim0 outs
      then Inr \<lparr>shape0 = dim1 outs, shape1 = dim2 outs, rows = slices outs ! i\<rparr>
      else Inl IndexError)"

text \<open>
  Broadcasting of a matrix to the shape \<open>(n, f)\<close>: an axis of the source has the size of
  the target or size one, and an axis of size one is repeated.
\<close>

definition expand :: "'a tensor2 \<Rightarrow> nat \<Rightarrow> nat \<Rightarrow> 'a list list option" where
  "expand M n f =
     (if (shape0 M = n \<or> shape0 M = 1) \<and> (shape1 M = f \<or> shape1 M = 1)
      then Some (map (\<lambda>r. if shape1 M = f then r else replicate f (hd r))
                   (if shape0 M = n then rows M else replicate n (hd (rows M))))
      else None)"

text \<open>\<^verbatim>\<open>outs[i] = M\<close>: the slice is overwritten by a copy of \<open>M\<close>, broadcast to its shape.\<close>

definition setitem :: "'a tensor3 \<Rightarrow> nat \<Rightarrow> 'a tensor2 \<Rightarrow> error + 'a tensor3" where
  "setitem outs i M =
     (if i < dim0 outs
      then (case expand M (dim1 outs) (dim2 outs) of
              None \<Rightarrow> Inl RuntimeError
            | Some rs \<Rightarrow> Inr (outs\<lparr>slices := (slices outs)[i := rs]\<rparr>))
      else Inl IndexError)"

text \<open>
  \<^verbatim>\<open>torch.mm(A, B)\<close> checks the inner sizes and then computes every entry of the product
  from a row of \<open>A\<close> and a column of \<open>B\<close>, in the floating-point arithmetic of the tensors:
  the sum of the products is rounded, and neither the order of the additions nor the
  rounding of the intermediate results is fixed by the script. The inner product of two
  vectors as the library computes it is therefore a parameter, \<open>dotp\<close>, of which nothing
  is assumed.
\<close>

definition column :: "'a tensor2 \<Rightarrow> nat \<Rightarrow> 'a list" where
  "column B j = map (\<lambda>r. r ! j) (rows B)"

definition mat_prod :: "('a list \<Rightarrow> 'a list \<Rightarrow> 'a) \<Rightarrow> 'a tensor2 \<Rightarrow> 'a tensor2 \<Rightarrow> 'a tensor2" where
  "mat_prod dotp A B = \<lparr>shape0 = shape0 A, shape1 = shape1 B,
     rows = map (\<lambda>r. map (\<lambda>j. dotp r (column B j)) [0..<shape1 B]) (rows A)\<rparr>"

definition mm :: "('a list \<Rightarrow> 'a list \<Rightarrow> 'a) \<Rightarrow> 'a tensor2 \<Rightarrow> 'a tensor2 \<Rightarrow> error + 'a tensor2" where
  "mm dotp A B =
     (if shape1 A = shape0 B then Inr (mat_prod dotp A B) else Inl RuntimeError)"

section \<open>Feature propagation\<close>

text \<open>
  \<^verbatim>\<open>
  def unroll(X, P, n_iters):
      n_nodes, n_feats = X.shape[0], X.shape[1]
      outs = torch.zeros(n_iters, n_nodes, n_feats)
      outs[0] = X
      for i in range(1, n_iters):
          outs[i] = torch.mm(P, outs[i-1])
      return outs
  \<close>
  The loop runs over the list of indices \<open>[1..<n_iters]\<close>. A negative \<open>n_iters\<close> makes
  \<^verbatim>\<open>torch.zeros\<close> raise, and \<open>n_iters = 0\<close> makes the first assignment raise. The move
  of \<open>outs\<close> to the GPU, which the source makes when one is there, changes no entry and
  is left out.
\<close>

fun unroll_loop ::
  "('a list \<Rightarrow> 'a list \<Rightarrow> 'a) \<Rightarrow> 'a tensor2 \<Rightarrow> 'a tensor3 \<Rightarrow> nat list \<Rightarrow> error + 'a tensor3" where
  "unroll_loop dotp P outs [] = Inr outs"
| "unroll_loop dotp P outs (i # is) =
     (case getitem outs (i - 1) of
        Inl e \<Rightarrow> Inl e
      | Inr prev \<Rightarrow>
          (case mm dotp P prev of
             Inl e \<Rightarrow> Inl e
           | Inr m \<Rightarrow>
               (case setitem outs i m of
                  Inl e \<Rightarrow> Inl e
                | Inr outs' \<Rightarrow> unroll_loop dotp P outs' is)))"

definition unroll ::
  "('a list \<Rightarrow> 'a list \<Rightarrow> 'a) \<Rightarrow> ('a::zero) tensor2 \<Rightarrow> 'a tensor2 \<Rightarrow> int \<Rightarrow> error + 'a tensor3" where
  "unroll dotp X P n_iters =
     (if n_iters < 0 then Inl RuntimeError
      else
        let n_nodes = shape0 X; n_feats = shape1 X;
            outs = zeros (nat n_iters) n_nodes n_feats
        in (case setitem outs 0 X of
              Inl e \<Rightarrow> Inl e
            | Inr outs \<Rightarrow> unroll_loop dotp P outs [1..<nat n_iters]))"


definition exact_dot :: "('a::semiring_0) list \<Rightarrow> 'a list \<Rightarrow> 'a" where
  "exact_dot xs ys = sum_list (map2 (*) xs ys)"



section \<open>Accuracy\<close>

text \<open>
  \<^verbatim>\<open>output.max(1)[1]\<close>: for every row the index of its largest entry, the first one when
  the largest entry occurs several times. torch raises when the rows have no entry.
\<close>

primrec argmax_from :: "real list \<Rightarrow> nat \<Rightarrow> nat \<Rightarrow> real \<Rightarrow> nat" where
  "argmax_from [] i b v = b"
| "argmax_from (x # xs) i b v =
     (if v < x then argmax_from xs (Suc i) i x else argmax_from xs (Suc i) b v)"

definition argmax :: "real list \<Rightarrow> nat" where
  "argmax r = (case r of [] \<Rightarrow> 0 | x # xs \<Rightarrow> argmax_from xs 1 0 x)"

definition max1_indices :: "real tensor2 \<Rightarrow> error + nat list" where
  "max1_indices output =
     (if shape1 output = 0 then Inl RuntimeError else Inr (map argmax (rows output)))"

text \<open>
  \<^verbatim>\<open>preds.eq(labels)\<close> on two vectors: elementwise, a vector of length one being broadcast
  to the length of the other; other lengths that differ raise.
\<close>

definition eq_broadcast :: "int list \<Rightarrow> int list \<Rightarrow> error + bool list" where
  "eq_broadcast preds labels =
     (if length preds = length labels then Inr (map2 (=) preds labels)
      else if length preds = 1 then Inr (map (\<lambda>l. hd preds = l) labels)
      else if length labels = 1 then Inr (map (\<lambda>p. p = hd labels) preds)
      else Inl RuntimeError)"

text \<open>
  A Python float that may be the value \<^verbatim>\<open>nan\<close>: dividing the tensor \<^verbatim>\<open>correct\<close> by
  \<^verbatim>\<open>len(labels) = 0\<close> does not raise, the sum is \<open>0\<close> then and the quotient is \<^verbatim>\<open>nan\<close>.
\<close>

datatype pyfloat = NaN | Float real

text \<open>
  \<^verbatim>\<open>
  def accuracy(output, labels):
      preds = output.max(1)[1].type_as(labels)
      correct = preds.eq(labels).double()
      correct = correct.sum()
      return correct / len(labels)
  \<close>
\<close>

definition accuracy :: "real tensor2 \<Rightarrow> int list \<Rightarrow> error + pyfloat" where
  "accuracy output labels =
     (case max1_indices output of
        Inl e \<Rightarrow> Inl e
      | Inr preds \<Rightarrow>
          (case eq_broadcast (map int preds) labels of
             Inl e \<Rightarrow> Inl e
           | Inr correct \<Rightarrow>
               let correct = sum_list (map (\<lambda>b. if b then 1 else 0) correct)
               in Inr (if length labels = 0 then NaN
                       else Float (correct / real (length labels)))))"

section \<open>Early stopping\<close>

text \<open>
  \<^verbatim>\<open>
  class earlystopping():
      def __init__(self, patience = 5):
          self.best = 1000
          self.patience = patience
          self.t = 0
      def test(self, l_list):
          current = l_list[-1]
          if current < self.best:
              self.best = current
              return False
          else:
              self.t += 1
              if self.t > self.patience:
                  return True
              else:
                  return False
  \<close>
  The method returns its result together with the updated object. Losses are real
  numbers; \<^verbatim>\<open>l_list[-1]\<close> raises on the empty list.
\<close>

record earlystopping =
  best :: real
  patience :: int
  t :: int

definition earlystopping_init :: "int \<Rightarrow> earlystopping" where
  "earlystopping_init p = \<lparr>best = 1000, patience = p, t = 0\<rparr>"

definition earlystopping_test :: "earlystopping \<Rightarrow> real list \<Rightarrow> error + bool \<times> earlystopping" where
  "earlystopping_test self l_list =
     (if l_list = [] then Inl IndexError
      else
        let current = last l_list
        in if current < best self then Inr (False, self\<lparr>best := current\<rparr>)
           else
             let self = self\<lparr>t := t self + 1\<rparr>
             in if t self > patience self then Inr (True, self) else Inr (False, self))"

text \<open>A sequence of calls of \<^verbatim>\<open>test\<close> on one object, with the results in order.\<close>

fun test_calls :: "earlystopping \<Rightarrow> real list list \<Rightarrow> error + bool list \<times> earlystopping" where
  "test_calls self [] = Inr ([], self)"
| "test_calls self (l_list # rest) =
     (case earlystopping_test self l_list of
        Inl e \<Rightarrow> Inl e
      | Inr (stop, self') \<Rightarrow>
          (case test_calls self' rest of
             Inl e \<Rightarrow> Inl e
           | Inr (stops, self'') \<Rightarrow> Inr (stop # stops, self'')))"

text \<open>
  The notions of the rule, over the sequence \<open>xs\<close> of the losses submitted so far:
  the running best of the losses, which is their minimum; the best that the object
  stores, which starts at 1000; whether epoch \<open>j\<close> fails to improve on the best stored
  before it; and the number of such epochs, either all of them up to \<open>j\<close> or the
  consecutive ones that end at \<open>j\<close>.
\<close>

definition running_min :: "real list \<Rightarrow> real" where
  "running_min xs = Min (set xs)"

definition stored_best :: "real list \<Rightarrow> real" where
  "stored_best xs = Min (insert 1000 (set xs))"

definition nonimproving :: "real list \<Rightarrow> nat \<Rightarrow> bool" where
  "nonimproving xs j = (\<not> xs ! j < stored_best (take j xs))"

definition total_nonimproving :: "real list \<Rightarrow> nat \<Rightarrow> nat" where
  "total_nonimproving xs j = length (filter (nonimproving xs) [0..<Suc j])"

primrec consecutive_nonimproving :: "real list \<Rightarrow> nat \<Rightarrow> nat" where
  "consecutive_nonimproving xs 0 = (if nonimproving xs 0 then 1 else 0)"
| "consecutive_nonimproving xs (Suc j) =
     (if nonimproving xs (Suc j) then Suc (consecutive_nonimproving xs j) else 0)"

definition stop_signal :: "int \<Rightarrow> real list \<Rightarrow> nat \<Rightarrow> bool" where
  "stop_signal p xs j = (nonimproving xs j \<and> p < int (total_nonimproving xs j))"

section \<open>The torch runtime\<close>

text \<open>
  The classifier (\<^verbatim>\<open>models.GRN\<close>), the optimizer, the loss and the inner product of
  \<^verbatim>\<open>torch.mm\<close> come from outside \<^verbatim>\<open>train.py\<close>. The state of the first three (the
  parameters of the model, its mode, the gradients and the state of the optimizer) is a
  value of an arbitrary type \<open>'w\<close>, and the operations are parameters of the model:
  fields of \<open>torch_ops\<close>. The entries of the tensors are the real numbers that the
  floating-point values stand for. The runtime keeps the state together
  with the list of the calls made so far, each with its arguments and, for a forward
  pass, its result.
\<close>

datatype event =
    AdamInit real real
  | ZeroGrad
  | ModelTrain
  | ModelEval
  | Forward "real tensor3" "real tensor2"
  | CrossEntropy "real tensor2" "int list"
  | Backward "real tensor2" "int list"
  | OptStep

record 'w torch_ops =
  mm_kernel :: "real list \<Rightarrow> real list \<Rightarrow> real"
  adam :: "real \<Rightarrow> real \<Rightarrow> 'w \<Rightarrow> 'w"
  zero_grad :: "'w \<Rightarrow> 'w"
  model_train :: "'w \<Rightarrow> 'w"
  model_eval :: "'w \<Rightarrow> 'w"
  model_call :: "'w \<Rightarrow> real tensor3 \<Rightarrow> real tensor2 \<times> 'w"
  cross_entropy :: "real tensor2 \<Rightarrow> int list \<Rightarrow> real"
  backward :: "real tensor2 \<Rightarrow> int list \<Rightarrow> 'w \<Rightarrow> 'w"
  opt_step :: "'w \<Rightarrow> 'w"

record 'w runtime =
  world :: 'w
  calls :: "event list"

definition call :: "event \<Rightarrow> ('w \<Rightarrow> 'w) \<Rightarrow> 'w runtime \<Rightarrow> 'w runtime" where
  "call ev f rt = \<lparr>world = f (world rt), calls = calls rt @ [ev]\<rparr>"

text \<open>\<^verbatim>\<open>model(X)\<close>: the scores of the classifier; the call may change the state.\<close>

definition forward :: "'w torch_ops \<Rightarrow> real tensor3 \<Rightarrow> 'w runtime \<Rightarrow> real tensor2 \<times> 'w runtime" where
  "forward ops X rt =
     (let (outs, w) = model_call ops (world rt) X
      in (outs, \<lparr>world = w, calls = calls rt @ [Forward X outs]\<rparr>))"

text \<open>
  A loss tensor: its value (\<^verbatim>\<open>.item()\<close>) and the scores and labels it was computed
  from, which is what \<^verbatim>\<open>.backward()\<close> differentiates.
\<close>

record loss_tensor =
  item :: real
  scores :: "real tensor2"
  targets :: "int list"

text \<open>
  \<^verbatim>\<open>
  def loss_ce(score, y):
      loss = nn.CrossEntropyLoss()
      return loss(score, y)
  \<close>
\<close>

definition loss_ce :: "'w torch_ops \<Rightarrow> real tensor2 \<Rightarrow> int list \<Rightarrow> 'w runtime \<Rightarrow> loss_tensor \<times> 'w runtime" where
  "loss_ce ops score y rt =
     (\<lparr>item = cross_entropy ops score y, scores = score, targets = y\<rparr>,
      call (CrossEntropy score y) id rt)"

definition loss_backward :: "'w torch_ops \<Rightarrow> loss_tensor \<Rightarrow> 'w runtime \<Rightarrow> 'w runtime" where
  "loss_backward ops l rt =
     call (Backward (scores l) (targets l)) (backward ops (scores l) (targets l)) rt"

text \<open>
  \<^verbatim>\<open>outs[idx]\<close> and \<^verbatim>\<open>labels[idx]\<close> for a list of indices: the rows, or the entries, at
  these indices in the order of the list. An index out of range raises.
\<close>

definition rows_at :: "'a tensor2 \<Rightarrow> nat list \<Rightarrow> 'a tensor2" where
  "rows_at T idx = \<lparr>shape0 = length idx, shape1 = shape1 T, rows = map (\<lambda>i. rows T ! i) idx\<rparr>"

definition labels_at :: "int list \<Rightarrow> nat list \<Rightarrow> int list" where
  "labels_at labels idx = map (\<lambda>i. labels ! i) idx"

definition select_rows :: "'a tensor2 \<Rightarrow> nat list \<Rightarrow> error + 'a tensor2" where
  "select_rows T idx =
     (if list_all (\<lambda>i. i < shape0 T) idx then Inr (rows_at T idx) else Inl IndexError)"

definition select_labels :: "int list \<Rightarrow> nat list \<Rightarrow> error + int list" where
  "select_labels labels idx =
     (if list_all (\<lambda>i. i < length labels) idx then Inr (labels_at labels idx)
      else Inl IndexError)"

section \<open>Training\<close>

text \<open>
  The local variables of \<^verbatim>\<open>train\<close> that the epochs update.
\<close>

record train_vars =
  loss_list_train :: "real list"
  loss_list_val :: "real list"
  acc_list_val :: "pyfloat list"
  es :: earlystopping

text \<open>
  The body of the loop of \<^verbatim>\<open>train\<close>:
  \<^verbatim>\<open>
        g_op.zero_grad()
        model.train()
        outs = model(X)
        loss_train = loss_ce(outs[idx_train_], labels[idx_train_])
        loss_train.backward(retain_graph=True)
        loss_list_train.append(loss_train.item())
        g_op.step()

        model.eval()
        outs = model(X)
        loss_val = loss_ce(outs[idx_val_], labels[idx_val_])
        acc_val = accuracy(outs[idx_val_], labels[idx_val_])
        loss_list_val.append(loss_val.item())
        acc_list_val.append(acc_val.item())
        stop = es.test(loss_list_val)
  \<close>
  It returns \<open>stop\<close> with the runtime and the variables; an exception leaves the function.
\<close>

definition train_epoch ::
  "'w torch_ops \<Rightarrow> real tensor3 \<Rightarrow> int list \<Rightarrow> nat list \<Rightarrow> nat list \<Rightarrow>
     'w runtime \<times> train_vars \<Rightarrow> error + bool \<times> 'w runtime \<times> train_vars" where
  "train_epoch ops X labels idx_train idx_val s =
     (let (rt, v) = s;
          rt = call ZeroGrad (zero_grad ops) rt;
          rt = call ModelTrain (model_train ops) rt;
          (outs, rt) = forward ops X rt
      in case select_rows outs idx_train of
           Inl e \<Rightarrow> Inl e
         | Inr outs_train \<Rightarrow>
      (case select_labels labels idx_train of
           Inl e \<Rightarrow> Inl e
         | Inr labels_train \<Rightarrow>
      (let (loss_train, rt) = loss_ce ops outs_train labels_train rt;
           rt = loss_backward ops loss_train rt;
           v = v\<lparr>loss_list_train := loss_list_train v @ [item loss_train]\<rparr>;
           rt = call OptStep (opt_step ops) rt;
           rt = call ModelEval (model_eval ops) rt;
           (outs, rt) = forward ops X rt
       in case select_rows outs idx_val of
            Inl e \<Rightarrow> Inl e
          | Inr outs_val \<Rightarrow>
       (case select_labels labels idx_val of
            Inl e \<Rightarrow> Inl e
          | Inr labels_val \<Rightarrow>
       (let (loss_val, rt) = loss_ce ops outs_val labels_val rt
        in case accuracy outs_val labels_val of
             Inl e \<Rightarrow> Inl e
           | Inr acc_val \<Rightarrow>
        (let v = v\<lparr>loss_list_val := loss_list_val v @ [item loss_val]\<rparr>;
             v = v\<lparr>acc_list_val := acc_list_val v @ [acc_val]\<rparr>
         in case earlystopping_test (es v) (loss_list_val v) of
              Inl e \<Rightarrow> Inl e
            | Inr (stop, es') \<Rightarrow> Inr (stop, rt, v\<lparr>es := es'\<rparr>)))))))"

text \<open>
  \<^verbatim>\<open>for epoch in range(n_epochs): ... if stop: break\<close>, over the list of the epochs
  that are left.
\<close>

fun train_loop ::
  "'w torch_ops \<Rightarrow> real tensor3 \<Rightarrow> int list \<Rightarrow> nat list \<Rightarrow> nat list \<Rightarrow>
     'w runtime \<times> train_vars \<Rightarrow> nat list \<Rightarrow> error + 'w runtime \<times> train_vars" where
  "train_loop ops X labels idx_train idx_val s [] = Inr s"
| "train_loop ops X labels idx_train idx_val s (epoch # epochs) =
     (case train_epoch ops X labels idx_train idx_val s of
        Inl e \<Rightarrow> Inl e
      | Inr (stop, s') \<Rightarrow>
          if stop then Inr s' else train_loop ops X labels idx_train idx_val s' epochs)"

text \<open>
  \<^verbatim>\<open>
  def train(model, n_iters, n_hids, n_epochs, X, labels, lr_, w_, p, idx_train_, idx_val_,
            timecheck=False):
      X = unroll(features, P, n_iters)
      g_op = optim.Adam(model.parameters(), lr=lr_, weight_decay = w_)
      loss_list_train = []
      loss_list_val = []
      acc_list_val = []
      es = earlystopping(patience=p)
      for epoch in range(n_epochs):
          ...
      return loss_list_train, loss_list_val, acc_list_val
  \<close>
  \<open>features\<close> and \<open>P\<close> are the globals of the module that the function reads; the model is
  the state of the runtime \<open>rt\<close>. Names of the source that end in an underscore are written
  without it. The function is modelled for the default
  \<^verbatim>\<open>timecheck=False\<close>; with \<^verbatim>\<open>timecheck=True\<close> it returns the elapsed wall-clock time as a
  fourth component. The result holds the three lists and the runtime after the call.
\<close>

record 'w train_result =
  l_train :: "real list"
  l_val :: "real list"
  acc_val :: "pyfloat list"
  rt_out :: "'w runtime"

definition train ::
  "'w torch_ops \<Rightarrow> real tensor2 \<Rightarrow> real tensor2 \<Rightarrow> 'w runtime \<Rightarrow> int \<Rightarrow> 'h \<Rightarrow> int \<Rightarrow> 'x \<Rightarrow>
     int list \<Rightarrow> real \<Rightarrow> real \<Rightarrow> int \<Rightarrow> nat list \<Rightarrow> nat list \<Rightarrow> error + 'w train_result" where
  "train ops features P rt n_iters n_hids n_epochs X labels lr wd p idx_train idx_val =
     (case unroll (mm_kernel ops) features P n_iters of
        Inl e \<Rightarrow> Inl e
      | Inr X \<Rightarrow>
          let rt = call (AdamInit lr wd) (adam ops lr wd) rt;
              v = \<lparr>loss_list_train = [], loss_list_val = [], acc_list_val = [],
                   es = earlystopping_init p\<rparr>
          in (case train_loop ops X labels idx_train idx_val (rt, v) [0..<nat n_epochs] of
                Inl e \<Rightarrow> Inl e
              | Inr (rt, v) \<Rightarrow>
                  Inr \<lparr>l_train = loss_list_train v, l_val = loss_list_val v,
                       acc_val = acc_list_val v, rt_out = rt\<rparr>))"

text \<open>
  \<^verbatim>\<open>
  def test(model, X, labels, idx_test_):
      model.eval()
      outs = model(X)
      loss_test = loss_ce(outs[idx_test_], labels[idx_test_])
      acc_test = accuracy(outs[idx_test_], labels[idx_test_])
      print(...)
      return loss_test.item(), acc_test.item()
  \<close>
\<close>

definition test ::
  "'w torch_ops \<Rightarrow> 'w runtime \<Rightarrow> real tensor3 \<Rightarrow> int list \<Rightarrow> nat list \<Rightarrow>
     error + (real \<times> pyfloat) \<times> 'w runtime" where
  "test ops rt X labels idx_test =
     (let rt = call ModelEval (model_eval ops) rt;
          (outs, rt) = forward ops X rt
      in case select_rows outs idx_test of
           Inl e \<Rightarrow> Inl e
         | Inr outs_test \<Rightarrow>
      (case select_labels labels idx_test of
           Inl e \<Rightarrow> Inl e
         | Inr labels_test \<Rightarrow>
      (let (loss_test, rt) = loss_ce ops outs_test labels_test rt
       in case accuracy outs_test labels_test of
            Inl e \<Rightarrow> Inl e
          | Inr acc_test \<Rightarrow> Inr ((item loss_test, acc_test), rt))))"

section \<open>The script\<close>

text \<open>
  The command line: one optional value for each argument that the parser declares.
  \<^verbatim>\<open>parse_args\<close> fills in the defaults of the \<^verbatim>\<open>add_argument\<close> calls.
\<close>

record cmdline =
  opt_lr :: "real option"
  opt_wd :: "real option"
  opt_n_hid :: "int option"
  opt_n_iter :: "int option"
  opt_dataset :: "string option"
  opt_ps :: "int option"
  opt_d1 :: "real option"
  opt_d2 :: "real option"
  opt_d3 :: "real option"

record args =
  arg_lr :: real
  arg_wd :: real
  arg_n_hid :: int
  arg_n_iter :: int
  arg_dataset :: string
  arg_ps :: int
  arg_d1 :: real
  arg_d2 :: real
  arg_d3 :: real

definition with_default :: "'a \<Rightarrow> 'a option \<Rightarrow> 'a" where
  "with_default d v = (case v of None \<Rightarrow> d | Some x \<Rightarrow> x)"

definition parse_args :: "cmdline \<Rightarrow> args" where
  "parse_args cl =
     \<lparr>arg_lr = with_default (1 / 100) (opt_lr cl),
      arg_wd = with_default (1 / 100) (opt_wd cl),
      arg_n_hid = with_default 112 (opt_n_hid cl),
      arg_n_iter = with_default 9 (opt_n_iter cl),
      arg_dataset = with_default ''cora'' (opt_dataset cl),
      arg_ps = with_default 5 (opt_ps cl),
      arg_d1 = with_default (2 / 10) (opt_d1 cl),
      arg_d2 = with_default (2 / 10) (opt_d2 cl),
      arg_d3 = with_default (4 / 10) (opt_d3 cl)\<rparr>"

text \<open>
  The hyperparameters, as the script assigns them from the arguments:
  \<^verbatim>\<open>
  n_hids = arg.n_hid
  n_iters = arg.n_iter
  d1 = arg.d1
  d2 = arg.d2
  d3 = arg.d3
  n_epochs = arg.n_iter
  lr = arg.lr
  wd = arg.wd
  ps = arg.ps
  \<close>
\<close>

record hyper =
  hp_n_hids :: int
  hp_n_iters :: int
  hp_d1 :: real
  hp_d2 :: real
  hp_d3 :: real
  hp_n_epochs :: int
  hp_lr :: real
  hp_wd :: real
  hp_ps :: int

definition hyperparameters :: "args \<Rightarrow> hyper" where
  "hyperparameters arg =
     \<lparr>hp_n_hids = arg_n_hid arg,
      hp_n_iters = arg_n_iter arg,
      hp_d1 = arg_d1 arg,
      hp_d2 = arg_d2 arg,
      hp_d3 = arg_d3 arg,
      hp_n_epochs = arg_n_iter arg,
      hp_lr = arg_lr arg,
      hp_wd = arg_wd arg,
      hp_ps = arg_ps arg\<rparr>"

text \<open>
  What \<^verbatim>\<open>utils\<close>, \<^verbatim>\<open>models\<close> and \<^verbatim>\<open>numpy\<close> provide is a parameter of the script: the
  loader of the data set, the constructor of the classifier, the split of the node
  indices and the inner product of the floating-point product \<^verbatim>\<open>deg_inv.dot(...)\<close>.
\<close>

record dataset =
  ds_features :: "real tensor2"
  ds_labels :: "int list"
  ds_adj :: "real tensor2"
  ds_deg :: "real tensor2"
  ds_deg_inv :: "real tensor2"

record 'w script_env =
  np_kernel :: "real list \<Rightarrow> real list \<Rightarrow> real"
  load_data :: "string \<Rightarrow> dataset"
  GRN :: "int \<Rightarrow> nat \<Rightarrow> nat \<Rightarrow> int \<Rightarrow> int \<Rightarrow> real \<Rightarrow> real \<Rightarrow> real \<Rightarrow> 'w"
  split_idx :: "nat \<Rightarrow> nat \<Rightarrow> nat \<Rightarrow> nat \<Rightarrow> nat list \<times> nat list \<times> nat list"

record 'w script_result =
  trained :: "'w train_result"
  t_loss :: real
  t_acc :: pyfloat
  rt_final :: "'w runtime"

text \<open>
  The statements of the module after the parser, up to the call of \<^verbatim>\<open>test\<close>:
  \<^verbatim>\<open>
  arg = parser.parse_args()
  features_, labels_, adj, deg, deg_inv = load_data(arg.dataset)
  P = torch.from_numpy(deg_inv.dot(adj.todense()))
  features = torch.from_numpy(features_.todense())
  labels = torch.from_numpy(labels_).long()
  n_nodes, n_feats = features_.shape[0], features_.shape[1]
  n_class = np.int(np.max(labels_) + 1)
  ...
  grn = GRN(n_iters, n_nodes, n_feats, n_hids, n_class, d1, d2, d3)
  idx_train_, idx_val_, idx_test_ = split_idx(140, 500, 1000, n_nodes)
  X = unroll(features, P, n_iters)
  l_train, l_val, acc_val = train(grn, n_iters, n_hids, n_epochs, X, labels, lr, wd, ps,
                                  idx_train_, idx_val_)
  t_loss, t_acc = test(grn, X, labels, idx_test_)
  \<close>
  The product of matrices of sizes that do not fit and the maximum of no labels raise.
  Moving the tensors to the GPU and printing are left out.
\<close>

definition script :: "'w torch_ops \<Rightarrow> 'w script_env \<Rightarrow> cmdline \<Rightarrow> error + 'w script_result" where
  "script ops env cl =
     (let arg = parse_args cl;
          data = load_data env (arg_dataset arg)
      in if shape1 (ds_deg_inv data) \<noteq> shape0 (ds_adj data) then Inl ValueError
         else if ds_labels data = [] then Inl ValueError
         else
           let P = mat_prod (np_kernel env) (ds_deg_inv data) (ds_adj data);
               features = ds_features data;
               labels = ds_labels data;
               n_nodes = shape0 features;
               n_feats = shape1 features;
               n_class = Max (set labels) + 1;
               hp = hyperparameters arg;
               grn = \<lparr>world = GRN env (hp_n_iters hp) n_nodes n_feats (hp_n_hids hp) n_class
                                (hp_d1 hp) (hp_d2 hp) (hp_d3 hp),
                      calls = []\<rparr>;
               (idx_train, idx_val, idx_test) = split_idx env 140 500 1000 n_nodes
           in (case unroll (mm_kernel ops) features P (hp_n_iters hp) of
                 Inl e \<Rightarrow> Inl e
               | Inr X \<Rightarrow>
                   (case train ops features P grn (hp_n_iters hp) (hp_n_hids hp) (hp_n_epochs hp)
                           X labels (hp_lr hp) (hp_wd hp) (hp_ps hp) idx_train idx_val of
                      Inl e \<Rightarrow> Inl e
                    | Inr r \<Rightarrow>
                        (case test ops (rt_out r) X labels idx_test of
                           Inl e \<Rightarrow> Inl e
                         | Inr ((loss_test, acc_test), rt) \<Rightarrow>
                             Inr \<lparr>trained = r, t_loss = loss_test, t_acc = acc_test,
                                  rt_final = rt\<rparr>))))"

section \<open>Notions used in the statements\<close>

text \<open>
  The early-stopping object after the losses \<open>xs\<close> have been submitted to an object
  created with patience \<open>p\<close>, as the rule above describes it.
\<close>

definition es_after :: "int \<Rightarrow> real list \<Rightarrow> earlystopping" where
  "es_after p xs = \<lparr>best = stored_best xs, patience = p,
     t = int (length (filter (nonimproving xs) [0..<length xs]))\<rparr>"

text \<open>
  The calls of one epoch, given the scores \<open>os\<close> that its two forward passes return (in
  training mode and in evaluation mode), and the entries that the epoch appends to the
  three lists.
\<close>

definition epoch_events ::
  "real tensor3 \<Rightarrow> int list \<Rightarrow> nat list \<Rightarrow> nat list \<Rightarrow> real tensor2 \<times> real tensor2 \<Rightarrow> event list" where
  "epoch_events X labels idx_train idx_val os =
     [ZeroGrad, ModelTrain, Forward X (fst os),
      CrossEntropy (rows_at (fst os) idx_train) (labels_at labels idx_train),
      Backward (rows_at (fst os) idx_train) (labels_at labels idx_train),
      OptStep, ModelEval, Forward X (snd os),
      CrossEntropy (rows_at (snd os) idx_val) (labels_at labels idx_val)]"

definition train_loss_of :: "'w torch_ops \<Rightarrow> int list \<Rightarrow> nat list \<Rightarrow> real tensor2 \<times> real tensor2 \<Rightarrow> real" where
  "train_loss_of ops labels idx_train os =
     cross_entropy ops (rows_at (fst os) idx_train) (labels_at labels idx_train)"

definition val_loss_of :: "'w torch_ops \<Rightarrow> int list \<Rightarrow> nat list \<Rightarrow> real tensor2 \<times> real tensor2 \<Rightarrow> real" where
  "val_loss_of ops labels idx_val os =
     cross_entropy ops (rows_at (snd os) idx_val) (labels_at labels idx_val)"

definition val_acc_of :: "int list \<Rightarrow> nat list \<Rightarrow> real tensor2 \<times> real tensor2 \<Rightarrow> error + pyfloat" where
  "val_acc_of labels idx_val os = accuracy (rows_at (snd os) idx_val) (labels_at labels idx_val)"


section \<open>The arithmetic of float32\<close>








section \<open>A small instance\<close>

text \<open>
  Two nodes with one feature each. The state of the runtime counts the steps of the
  optimizer; the classifier scores node 0 with that count, and the loss is the first
  score it is given. The validation loss of the instance grows with every epoch. No
  product of the instance is rounded, and its inner product is the exact one.
\<close>

definition example_features :: "real tensor2" where
  "example_features = \<lparr>shape0 = 2, shape1 = 1, rows = [[1], [2]]\<rparr>"

definition example_P :: "real tensor2" where
  "example_P = \<lparr>shape0 = 2, shape1 = 2, rows = [[0, 1], [1, 1]]\<rparr>"

definition example_ops :: "nat torch_ops" where
  "example_ops =
     \<lparr>mm_kernel = exact_dot, adam = (\<lambda>lr wd w. w), zero_grad = (\<lambda>w. w), model_train = (\<lambda>w. w),
      model_eval = (\<lambda>w. w),
      model_call = (\<lambda>w X. (\<lparr>shape0 = 2, shape1 = 2, rows = [[0, 1], [real w, 0]]\<rparr>, w)),
      cross_entropy = (\<lambda>score y. hd (hd (rows score))),
      backward = (\<lambda>score y w. w), opt_step = Suc\<rparr>"

definition example_rt :: "nat runtime" where
  "example_rt = \<lparr>world = 0, calls = []\<rparr>"

definition example_env :: "nat script_env" where
  "example_env =
     \<lparr>np_kernel = exact_dot,
      load_data = (\<lambda>name. \<lparr>ds_features = example_features, ds_labels = [1, 0],
          ds_adj = example_P, ds_deg = example_P,
          ds_deg_inv = \<lparr>shape0 = 2, shape1 = 2, rows = [[1, 0], [0, 1]]\<rparr>\<rparr>),
      GRN = (\<lambda>n_iters n_nodes n_feats n_hids n_class d1 d2 d3. 0),
      split_idx = (\<lambda>a b c n. ([0], [1], [0, 1]))\<rparr>"

definition example_cmdline :: cmdline where
  "example_cmdline =
     \<lparr>opt_lr = None, opt_wd = None, opt_n_hid = None, opt_n_iter = None, opt_dataset = None,
      opt_ps = Some 1, opt_d1 = None, opt_d2 = None, opt_d3 = None\<rparr>"

section \<open>Matrix products\<close>













section \<open>The product of \<^verbatim>\<open>torch.mm\<close>\<close>






section \<open>The snapshots of \<^verbatim>\<open>unroll\<close>\<close>








section \<open>Rounding to float32\<close>
















section \<open>The early-stopping rule\<close>

lemma stored_best_Nil: "stored_best [] = 1000"
  by (simp add: stored_best_def)

lemma stored_best_snoc: "stored_best (xs @ [x]) = min x (stored_best xs)"
proof -
  have "insert 1000 (set (xs @ [x])) = insert x (insert 1000 (set xs))" by auto
  then show ?thesis by (simp add: stored_best_def)
qed

lemma stored_best_le: "stored_best xs \<le> 1000"
  by (simp add: stored_best_def)

lemma nonimproving_append: "j < length xs \<Longrightarrow> nonimproving (xs @ ys) j = nonimproving xs j"
  by (simp add: nonimproving_def nth_append)

lemma nonimproving_last: "nonimproving (xs @ [x]) (length xs) = (\<not> x < stored_best xs)"
  by (simp add: nonimproving_def)

lemma filter_nonimproving_append:
  "n \<le> length xs \<Longrightarrow> filter (nonimproving (xs @ ys)) [0..<n] = filter (nonimproving xs) [0..<n]"
  by (rule filter_cong) (simp_all add: nonimproving_append)

lemma total_nonimproving_append:
  "j < length xs \<Longrightarrow> total_nonimproving (xs @ ys) j = total_nonimproving xs j"
  by (simp add: total_nonimproving_def filter_nonimproving_append del: upt_Suc)

lemma stop_signal_append: "j < length xs \<Longrightarrow> stop_signal p (xs @ ys) j = stop_signal p xs j"
  by (simp add: stop_signal_def nonimproving_append total_nonimproving_append)

lemma earlystopping_init_after: "earlystopping_init p = es_after p []"
  by (simp add: earlystopping_init_def es_after_def stored_best_Nil)

lemma earlystopping_test_after:
  assumes "l_list \<noteq> []"
  shows "earlystopping_test (es_after p xs) l_list =
     Inr (stop_signal p (xs @ [last l_list]) (length xs), es_after p (xs @ [last l_list]))"
proof (cases "last l_list < stored_best xs")
  case True
  then show ?thesis using assms
    by (simp add: earlystopping_test_def es_after_def stop_signal_def nonimproving_last
        stored_best_snoc filter_nonimproving_append)
next
  case False
  then show ?thesis using assms
    by (simp add: earlystopping_test_def es_after_def stop_signal_def nonimproving_last
        stored_best_snoc filter_nonimproving_append total_nonimproving_def Let_def min_def)
qed

lemma test_calls_after:
  "list_all (\<lambda>l. l \<noteq> []) ls \<Longrightarrow>
   test_calls (es_after p xs) ls =
     Inr (map (\<lambda>j. stop_signal p (xs @ map last ls) (length xs + j)) [0..<length ls],
          es_after p (xs @ map last ls))"
proof (induction ls arbitrary: xs)
  case Nil
  then show ?case by simp
next
  case (Cons l ls)
  have a: "stop_signal p (xs @ last l # map last ls) (length xs) =
      stop_signal p (xs @ [last l]) (length xs)"
    using stop_signal_append[of "length xs" "xs @ [last l]" p "map last ls"] by simp
  have b: "map (\<lambda>j. stop_signal p (xs @ last l # map last ls) (length xs + j)) [0..<Suc (length ls)]
      = stop_signal p (xs @ last l # map last ls) (length xs) #
        map (\<lambda>j. stop_signal p (xs @ last l # map last ls) (Suc (length xs + j))) [0..<length ls]"
    by (simp add: upt_conv_Cons map_Suc_upt[symmetric] del: upt_Suc)
  from Cons show ?case
    by (simp add: earlystopping_test_after a b del: upt_Suc)
qed

lemma stored_best_running_min:
  assumes "list_ex (\<lambda>x. x < 1000) xs"
  shows "stored_best xs = running_min xs"
proof -
  from assms obtain x where x: "x \<in> set xs" "x < 1000"
    by (auto simp: list_ex_iff)
  then have ne: "set xs \<noteq> {}" by auto
  have "Min (set xs) \<le> x" by (rule Min_le) (use x in simp_all)
  with x(2) have "Min (set xs) \<le> 1000" by linarith
  then have "min 1000 (Min (set xs)) = Min (set xs)" by (rule min_absorb2)
  moreover have "Min (insert 1000 (set xs)) = min 1000 (Min (set xs))"
    using ne by (intro Min_insert) simp_all
  ultimately show ?thesis
    unfolding stored_best_def running_min_def by (simp only:)
qed

lemma earlystopping_test_best:
  "l_list \<noteq> [] \<Longrightarrow>
     \<exists>stop self'. earlystopping_test self l_list = Inr (stop, self') \<and> best self' \<le> best self"
  by (auto simp: earlystopping_test_def Let_def)

lemma test_calls_best:
  "list_all (\<lambda>l. l \<noteq> []) ls \<Longrightarrow>
     \<exists>stops self'. test_calls self ls = Inr (stops, self') \<and> best self' \<le> best self"
proof (induction ls arbitrary: self)
  case Nil
  then show ?case by simp
next
  case (Cons l ls)
  then have l: "l \<noteq> []" and ls: "list_all (\<lambda>l. l \<noteq> []) ls" by simp_all
  from earlystopping_test_best[OF l, of self] obtain stop self1 where
    a: "earlystopping_test self l = Inr (stop, self1)" and b: "best self1 \<le> best self"
    by blast
  from Cons.IH[OF ls, of self1] obtain stops self2 where
    c: "test_calls self1 ls = Inr (stops, self2)" and d: "best self2 \<le> best self1"
    by blast
  from a b c d show ?case by simp
qed

text \<open>
  Claim C5, as it is stated, fails: the stored best starts at 1000, so after a single
  loss of 2000 it is 1000 and not the minimum 2000 of the losses submitted.
\<close>

theorem best_is_minimum_counterexample:
  "best (snd (projr (test_calls (earlystopping_init 5) [[2000]]))) \<noteq> running_min (map last [[2000]])"
  by (simp add: earlystopping_init_def earlystopping_test_def running_min_def)

text \<open>
  Claim C5, amended: over any sequence of calls of \<^verbatim>\<open>test\<close>, each with a list that is not
  empty, the stored best never increases, from whatever object the calls start; and after
  the calls on a new object it is the minimum of 1000, its initial value, and all the
  losses submitted so far (the last entries of the lists). It is the minimum of the
  losses alone as soon as one of them is below 1000.
\<close>

theorem best_is_running_best:
  assumes "list_all (\<lambda>l. l \<noteq> []) ls"
  shows "(\<exists>stops self'. test_calls self ls = Inr (stops, self') \<and> best self' \<le> best self) \<and>
     (\<exists>stops self'. test_calls (earlystopping_init p) ls = Inr (stops, self') \<and>
        best self' = Min (insert 1000 (set (map last ls))) \<and>
        (list_ex (\<lambda>x. x < 1000) (map last ls) \<longrightarrow> best self' = running_min (map last ls)))"
proof
  show "\<exists>stops self'. test_calls self ls = Inr (stops, self') \<and> best self' \<le> best self"
    using assms by (rule test_calls_best)
next
  have "test_calls (earlystopping_init p) ls =
      Inr (map (\<lambda>j. stop_signal p ([] @ map last ls) (length ([]::real list) + j)) [0..<length ls],
           es_after p ([] @ map last ls))"
    unfolding earlystopping_init_after using assms by (rule test_calls_after)
  moreover have "best (es_after p (map last ls)) = Min (insert 1000 (set (map last ls)))"
    by (simp add: es_after_def stored_best_def)
  moreover have "list_ex (\<lambda>x. x < 1000) (map last ls) \<longrightarrow>
      best (es_after p (map last ls)) = running_min (map last ls)"
    using stored_best_running_min[of "map last ls"] by (simp add: es_after_def)
  ultimately show "\<exists>stops self'. test_calls (earlystopping_init p) ls = Inr (stops, self') \<and>
        best self' = Min (insert 1000 (set (map last ls))) \<and>
        (list_ex (\<lambda>x. x < 1000) (map last ls) \<longrightarrow> best self' = running_min (map last ls))"
    by simp
qed

theorem best_is_running_best_witness:
  "list_all (\<lambda>l. l \<noteq> []) [[5], [5, 6], [5, 6, 4::real]] \<and>
   (\<exists>stops self'. test_calls (earlystopping_init 1) [[5], [5, 6], [5, 6, 4]] = Inr (stops, self') \<and>
        best self' = 4 \<and> best self' = running_min (map last [[5], [5, 6], [5, 6, 4]]))"
proof -
  have h: "list_all (\<lambda>l. l \<noteq> []) [[5], [5, 6], [5, 6, 4::real]]" by simp
  have m: "Min (insert 1000 (set (map last [[5], [5, 6], [5, 6, 4::real]]))) = 4" by simp
  have e: "list_ex (\<lambda>x. x < 1000) (map last [[5], [5, 6], [5, 6, 4::real]])" by simp
  from best_is_running_best[OF h, of "earlystopping_init 1" 1] m e h show ?thesis
    by auto
qed
section \<open>The training loop\<close>

lemma train_epoch_step:
  assumes "train_epoch ops X labels it iv (rt, v) = Inr (stop, rt', v')"
  shows "\<exists>os. calls rt' = calls rt @ epoch_events X labels it iv os \<and>
     loss_list_train v' = loss_list_train v @ [train_loss_of ops labels it os] \<and>
     loss_list_val v' = loss_list_val v @ [val_loss_of ops labels iv os] \<and>
     map Inr (acc_list_val v') = map Inr (acc_list_val v) @ [val_acc_of labels iv os] \<and>
     earlystopping_test (es v) (loss_list_val v') = Inr (stop, es v')"
proof -
  obtain o1 w1 where f1: "model_call ops (model_train ops (zero_grad ops (world rt))) X = (o1, w1)"
    by (cases "model_call ops (model_train ops (zero_grad ops (world rt))) X")
  obtain o2 w2 where f2: "model_call ops (model_eval ops (opt_step ops
      (backward ops (rows_at o1 it) (labels_at labels it) w1))) X = (o2, w2)"
    by (cases "model_call ops (model_eval ops (opt_step ops
      (backward ops (rows_at o1 it) (labels_at labels it) w1))) X")
  from assms f1 f2 have "calls rt' = calls rt @ epoch_events X labels it iv (o1, o2) \<and>
     loss_list_train v' = loss_list_train v @ [train_loss_of ops labels it (o1, o2)] \<and>
     loss_list_val v' = loss_list_val v @ [val_loss_of ops labels iv (o1, o2)] \<and>
     map Inr (acc_list_val v') = map Inr (acc_list_val v) @ [val_acc_of labels iv (o1, o2)] \<and>
     earlystopping_test (es v) (loss_list_val v') = Inr (stop, es v')"
    by (auto simp: train_epoch_def Let_def call_def forward_def loss_ce_def loss_backward_def
        select_rows_def select_labels_def epoch_events_def train_loss_of_def val_loss_of_def
        val_acc_of_def
        split: sum.splits if_splits prod.splits)
  then show ?thesis by blast
qed

lemma train_loop_run:
  assumes "train_loop ops X labels it iv (rt, v) epochs = Inr (rt', v')"
    and "es v = es_after p (loss_list_val v)"
  shows "\<exists>oss. length oss \<le> length epochs \<and>
     calls rt' = calls rt @ concat (map (epoch_events X labels it iv) oss) \<and>
     loss_list_train v' = loss_list_train v @ map (train_loss_of ops labels it) oss \<and>
     loss_list_val v' = loss_list_val v @ map (val_loss_of ops labels iv) oss \<and>
     map Inr (acc_list_val v') = map Inr (acc_list_val v) @ map (val_acc_of labels iv) oss \<and>
     (\<forall>j. length (loss_list_val v) \<le> j \<and> Suc j < length (loss_list_val v') \<longrightarrow>
          \<not> stop_signal p (loss_list_val v') j) \<and>
     (length oss < length epochs \<longrightarrow>
        oss \<noteq> [] \<and> stop_signal p (loss_list_val v') (length (loss_list_val v') - 1))"
  using assms
proof (induction epochs arbitrary: rt v)
  case Nil
  then show ?case by auto
next
  case (Cons epoch epochs)
  from Cons.prems(1) obtain stop rt1 v1 where
    ep: "train_epoch ops X labels it iv (rt, v) = Inr (stop, rt1, v1)"
    and rest: "if stop then (rt', v') = (rt1, v1)
               else train_loop ops X labels it iv (rt1, v1) epochs = Inr (rt', v')"
    by (auto split: sum.splits if_splits)
  from train_epoch_step[OF ep] obtain os where
    c1: "calls rt1 = calls rt @ epoch_events X labels it iv os"
    and t1: "loss_list_train v1 = loss_list_train v @ [train_loss_of ops labels it os]"
    and l1: "loss_list_val v1 = loss_list_val v @ [val_loss_of ops labels iv os]"
    and a1: "map Inr (acc_list_val v1) = map Inr (acc_list_val v) @ [val_acc_of labels iv os]"
    and e1: "earlystopping_test (es v) (loss_list_val v1) = Inr (stop, es v1)"
    by blast
  have ne: "loss_list_val v1 \<noteq> []" using l1 by simp
  have la: "last (loss_list_val v1) = val_loss_of ops labels iv os" using l1 by simp
  from e1 Cons.prems(2) earlystopping_test_after[OF ne, of p "loss_list_val v"] la l1
  have stop: "stop = stop_signal p (loss_list_val v1) (length (loss_list_val v))"
    and es1: "es v1 = es_after p (loss_list_val v1)"
    by simp_all
  show ?case
  proof (cases stop)
    case True
    with rest have eq: "rt' = rt1" "v' = v1" by simp_all
    have "length [os] \<le> length (epoch # epochs) \<and>
     calls rt' = calls rt @ concat (map (epoch_events X labels it iv) [os]) \<and>
     loss_list_train v' = loss_list_train v @ map (train_loss_of ops labels it) [os] \<and>
     loss_list_val v' = loss_list_val v @ map (val_loss_of ops labels iv) [os] \<and>
     map Inr (acc_list_val v') = map Inr (acc_list_val v) @ map (val_acc_of labels iv) [os] \<and>
     (\<forall>j. length (loss_list_val v) \<le> j \<and> Suc j < length (loss_list_val v') \<longrightarrow>
          \<not> stop_signal p (loss_list_val v') j) \<and>
     (length [os] < length (epoch # epochs) \<longrightarrow>
        [os] \<noteq> [] \<and> stop_signal p (loss_list_val v') (length (loss_list_val v') - 1))"
      using eq c1 t1 l1 a1 True stop by auto
    then show ?thesis by blast
  next
    case False
    with rest have loop: "train_loop ops X labels it iv (rt1, v1) epochs = Inr (rt', v')" by simp
    from Cons.IH[OF loop es1] obtain oss where
      n: "length oss \<le> length epochs"
      and c: "calls rt' = calls rt1 @ concat (map (epoch_events X labels it iv) oss)"
      and tr: "loss_list_train v' = loss_list_train v1 @ map (train_loss_of ops labels it) oss"
      and lv: "loss_list_val v' = loss_list_val v1 @ map (val_loss_of ops labels iv) oss"
      and ac: "map Inr (acc_list_val v') = map Inr (acc_list_val v1) @ map (val_acc_of labels iv) oss"
      and ns: "\<forall>j. length (loss_list_val v1) \<le> j \<and> Suc j < length (loss_list_val v') \<longrightarrow>
          \<not> stop_signal p (loss_list_val v') j"
      and st: "length oss < length epochs \<longrightarrow>
        oss \<noteq> [] \<and> stop_signal p (loss_list_val v') (length (loss_list_val v') - 1)"
      by blast
    have first: "\<not> stop_signal p (loss_list_val v') (length (loss_list_val v))"
      using False stop lv l1
        stop_signal_append[of "length (loss_list_val v)" "loss_list_val v1" p
          "map (val_loss_of ops labels iv) oss"]
      by simp
    have ns': "\<forall>j. length (loss_list_val v) \<le> j \<and> Suc j < length (loss_list_val v') \<longrightarrow>
          \<not> stop_signal p (loss_list_val v') j"
    proof (intro allI impI)
      fix j assume j: "length (loss_list_val v) \<le> j \<and> Suc j < length (loss_list_val v')"
      show "\<not> stop_signal p (loss_list_val v') j"
      proof (cases "j = length (loss_list_val v)")
        case True
        with first show ?thesis by simp
      next
        case False
        with j l1 have "length (loss_list_val v1) \<le> j" by simp
        with ns j show ?thesis by blast
      qed
    qed
    have "length (os # oss) \<le> length (epoch # epochs) \<and>
     calls rt' = calls rt @ concat (map (epoch_events X labels it iv) (os # oss)) \<and>
     loss_list_train v' = loss_list_train v @ map (train_loss_of ops labels it) (os # oss) \<and>
     loss_list_val v' = loss_list_val v @ map (val_loss_of ops labels iv) (os # oss) \<and>
     map Inr (acc_list_val v') = map Inr (acc_list_val v) @ map (val_acc_of labels iv) (os # oss) \<and>
     (\<forall>j. length (loss_list_val v) \<le> j \<and> Suc j < length (loss_list_val v') \<longrightarrow>
          \<not> stop_signal p (loss_list_val v') j) \<and>
     (length (os # oss) < length (epoch # epochs) \<longrightarrow>
        os # oss \<noteq> [] \<and> stop_signal p (loss_list_val v') (length (loss_list_val v') - 1))"
      using n c tr lv ac ns' st c1 t1 l1 a1 by auto
    then show ?thesis by blast
  qed
qed

lemma train_run:
  assumes "train ops features P rt n_iters n_hids n_epochs X labels lr wd p it iv = Inr r"
  shows "\<exists>X' oss. unroll (mm_kernel ops) features P n_iters = Inr X' \<and> length oss \<le> nat n_epochs \<and>
     calls (rt_out r) =
       calls rt @ AdamInit lr wd # concat (map (epoch_events X' labels it iv) oss) \<and>
     l_train r = map (train_loss_of ops labels it) oss \<and>
     l_val r = map (val_loss_of ops labels iv) oss \<and>
     map Inr (acc_val r) = map (val_acc_of labels iv) oss \<and>
     (\<forall>j. Suc j < length oss \<longrightarrow> \<not> stop_signal p (l_val r) j) \<and>
     (length oss < nat n_epochs \<longrightarrow> oss \<noteq> [] \<and> stop_signal p (l_val r) (length oss - 1))"
proof -
  from assms obtain X' where u: "unroll (mm_kernel ops) features P n_iters = Inr X'"
    by (auto simp: train_def split: sum.splits)
  let ?rt = "call (AdamInit lr wd) (adam ops lr wd) rt"
  let ?v = "\<lparr>loss_list_train = [], loss_list_val = [], acc_list_val = [],
             es = earlystopping_init p\<rparr>"
  from assms u obtain rt' v' where
    loop: "train_loop ops X' labels it iv (?rt, ?v) [0..<nat n_epochs] = Inr (rt', v')"
    and r: "r = \<lparr>l_train = loss_list_train v', l_val = loss_list_val v',
                 acc_val = acc_list_val v', rt_out = rt'\<rparr>"
    by (auto simp: train_def Let_def split: sum.splits)
  have e: "es ?v = es_after p (loss_list_val ?v)"
    by (simp add: earlystopping_init_after)
  from train_loop_run[OF loop e] obtain oss where
    "length oss \<le> length [0..<nat n_epochs]"
    "calls rt' = calls ?rt @ concat (map (epoch_events X' labels it iv) oss)"
    "loss_list_train v' = loss_list_train ?v @ map (train_loss_of ops labels it) oss"
    "loss_list_val v' = loss_list_val ?v @ map (val_loss_of ops labels iv) oss"
    "map Inr (acc_list_val v') = map Inr (acc_list_val ?v) @ map (val_acc_of labels iv) oss"
    "\<forall>j. length (loss_list_val ?v) \<le> j \<and> Suc j < length (loss_list_val v') \<longrightarrow>
          \<not> stop_signal p (loss_list_val v') j"
    "length oss < length [0..<nat n_epochs] \<longrightarrow>
        oss \<noteq> [] \<and> stop_signal p (loss_list_val v') (length (loss_list_val v') - 1)"
    by blast
  then have "length oss \<le> nat n_epochs \<and>
     calls (rt_out r) =
       calls rt @ AdamInit lr wd # concat (map (epoch_events X' labels it iv) oss) \<and>
     l_train r = map (train_loss_of ops labels it) oss \<and>
     l_val r = map (val_loss_of ops labels iv) oss \<and>
     map Inr (acc_val r) = map (val_acc_of labels iv) oss \<and>
     (\<forall>j. Suc j < length oss \<longrightarrow> \<not> stop_signal p (l_val r) j) \<and>
     (length oss < nat n_epochs \<longrightarrow> oss \<noteq> [] \<and> stop_signal p (l_val r) (length oss - 1))"
    using r by (simp add: call_def)
  with u show ?thesis by blast
qed



lemma example_train_returns:
  "\<not> isl (train example_ops example_features example_P example_rt 3 (112::int) 5 () [1, 0] (1 / 100) (1 / 100) 1 [0] [1])"
  by code_simp

lemma example_train_l_val:
  "l_val (projr (train example_ops example_features example_P example_rt 3 (112::int) 5 () [1, 0] (1 / 100) (1 / 100) 1 [0] [1])) = [1, 2, 3]"
  by code_simp

lemma example_stop_signal:
  "stop_signal 1 [1, 2, 3] 2"
  by code_simp

text \<open>
  Claim C2, as it is stated, fails: the counter \<open>t\<close> is never reset, so it counts all the
  epochs without improvement and not the consecutive ones. With patience 1 and the losses
  5, 6, 4, 7 the fourth call returns \<open>True\<close>, although only one epoch without improvement
  ends there.
\<close>

theorem consecutive_patience_counterexample:
  "fst (projr (test_calls (earlystopping_init 1) [[5], [5, 6], [5, 6, 4], [5, 6, 4, 7]])) ! 3 \<and>
   \<not> 1 < int (consecutive_nonimproving [5, 6, 4, 7] 3) \<and>
   fst (projr (test_calls (earlystopping_init 1) [[5], [5, 6], [5, 6, 4], [5, 6, 4, 7]])) =
     [False, False, False, True] \<and>
   map (consecutive_nonimproving [5, 6, 4, 7]) [0, 1, 2, 3] = [0, 1, 0, 1] \<and>
   map (total_nonimproving [5, 6, 4, 7]) [0, 1, 2, 3] = [0, 1, 1, 2]"
  by code_simp

text \<open>
  Claim C2, amended: for every patience \<open>p\<close> and every sequence of validation losses, a
  call of \<^verbatim>\<open>test\<close> on an object created with patience \<open>p\<close> returns \<open>True\<close> exactly when the
  latest loss fails to improve on the stored best and the number of all the epochs so far
  that failed to improve (consecutive or not) exceeds \<open>p\<close>. \<^verbatim>\<open>train\<close> leaves its loop at the
  first epoch with this result: no earlier epoch has it, and when fewer than \<open>n_epochs\<close>
  epochs were run, the last one has it.
\<close>

theorem stop_rule:
  "(list_all (\<lambda>l. l \<noteq> []) ls \<longrightarrow>
      (\<exists>self'. test_calls (earlystopping_init p) ls =
         Inr (map (stop_signal p (map last ls)) [0..<length ls], self'))) \<and>
   (train ops features P rt n_iters n_hids n_epochs X labels lr wd p idx_train idx_val = Inr r \<longrightarrow>
      length (l_val r) \<le> nat n_epochs \<and>
      (\<forall>j. Suc j < length (l_val r) \<longrightarrow> \<not> stop_signal p (l_val r) j) \<and>
      (length (l_val r) < nat n_epochs \<longrightarrow>
         l_val r \<noteq> [] \<and> stop_signal p (l_val r) (length (l_val r) - 1)))"
proof (intro conjI impI)
  assume "list_all (\<lambda>l. l \<noteq> []) ls"
  then have "test_calls (es_after p []) ls =
      Inr (map (\<lambda>j. stop_signal p ([] @ map last ls) (length ([]::real list) + j)) [0..<length ls],
           es_after p ([] @ map last ls))"
    by (rule test_calls_after)
  then show "\<exists>self'. test_calls (earlystopping_init p) ls =
         Inr (map (stop_signal p (map last ls)) [0..<length ls], self')"
    by (simp add: earlystopping_init_after)
next
  assume "train ops features P rt n_iters n_hids n_epochs X labels lr wd p idx_train idx_val = Inr r"
  from train_run[OF this] obtain oss where
    n: "length oss \<le> nat n_epochs"
    and lv: "l_val r = map (val_loss_of ops labels idx_val) oss"
    and ns: "\<forall>j. Suc j < length oss \<longrightarrow> \<not> stop_signal p (l_val r) j"
    and st: "length oss < nat n_epochs \<longrightarrow> oss \<noteq> [] \<and> stop_signal p (l_val r) (length oss - 1)"
    by blast
  from lv have len: "length (l_val r) = length oss" by simp
  show "length (l_val r) \<le> nat n_epochs" using n len by simp
  show "\<forall>j. Suc j < length (l_val r) \<longrightarrow> \<not> stop_signal p (l_val r) j" using ns len by simp
  show "l_val r \<noteq> []" if "length (l_val r) < nat n_epochs" using that st len by auto
  show "stop_signal p (l_val r) (length (l_val r) - 1)" if "length (l_val r) < nat n_epochs"
    using that st len by simp
qed

theorem stop_rule_witness:
  "list_all (\<lambda>l. l \<noteq> []) [[5], [5, 6], [5, 6, 4], [5, 6, 4, 7::real]] \<and>
   (\<exists>self'. test_calls (earlystopping_init 1) [[5], [5, 6], [5, 6, 4], [5, 6, 4, 7]] =
      Inr ([False, False, False, True], self')) \<and>
   \<not> isl (train example_ops example_features example_P example_rt 3 (112::int) 5 () [1, 0] (1 / 100) (1 / 100) 1 [0] [1]) \<and>
   length (l_val (projr (train example_ops example_features example_P example_rt 3 (112::int) 5 () [1, 0] (1 / 100) (1 / 100) 1 [0] [1]))) = 3 \<and>
   stop_signal 1 (l_val (projr (train example_ops example_features example_P example_rt 3 (112::int) 5 () [1, 0] (1 / 100) (1 / 100) 1 [0] [1]))) 2"
proof -
  let ?ls = "[[5], [5, 6], [5, 6, 4], [5, 6, 4, 7::real]]"
  let ?r = "projr (train example_ops example_features example_P example_rt 3 (112::int) 5 () [1, 0] (1 / 100) (1 / 100) 1 [0] [1])"
  have h: "list_all (\<lambda>l. l \<noteq> []) ?ls" by simp
  have m: "map (stop_signal 1 (map last ?ls)) [0..<length ?ls] = [False, False, False, True]"
    by code_simp
  have e: "train example_ops example_features example_P example_rt 3 (112::int) 5 () [1, 0] (1 / 100) (1 / 100) 1 [0] [1] = Inr ?r"
    using example_train_returns by simp
  from stop_rule[of ?ls 1 example_ops example_features example_P example_rt 3 "112::int" 5 "()"
      "[1, 0]" "1 / 100" "1 / 100" "[0]" "[1]" ?r] h m e
  have "\<exists>self'. test_calls (earlystopping_init 1) ?ls = Inr ([False, False, False, True], self')"
    by simp
  with h example_train_returns example_train_l_val example_stop_signal show ?thesis
    by simp
qed





text \<open>
  Claim C6: the result of \<^verbatim>\<open>train\<close> does not depend on its argument \<open>X\<close>: the function
  rebinds \<open>X\<close> to the result of \<^verbatim>\<open>unroll\<close> on the globals before it reads it.
\<close>

theorem train_ignores_X:
  "train ops features P rt n_iters n_hids n_epochs X1 labels lr wd p idx_train idx_val =
   train ops features P rt n_iters n_hids n_epochs X2 labels lr wd p idx_train idx_val"
  by (simp add: train_def)

theorem train_ignores_X_witness:
  "train example_ops example_features example_P example_rt 3 (112::int) 5 () [1, 0] (1 / 100) (1 / 100) 1 [0] [1] =
   train example_ops example_features example_P example_rt 3 (112::int) 5
     (zeros 1 1 1 :: real tensor3) [1, 0] (1 / 100) (1 / 100) 1 [0] [1]"
  by (rule train_ignores_X)

section \<open>The epoch budget of the script\<close>

lemma script_train:
  assumes "script ops env cl = Inr res"
  shows "\<exists>features P grn X labels idx_train idx_val.
     train ops features P grn (hp_n_iters (hyperparameters (parse_args cl)))
       (hp_n_hids (hyperparameters (parse_args cl))) (hp_n_epochs (hyperparameters (parse_args cl)))
       (X :: real tensor3) labels (hp_lr (hyperparameters (parse_args cl)))
       (hp_wd (hyperparameters (parse_args cl))) (hp_ps (hyperparameters (parse_args cl)))
       idx_train idx_val = Inr (trained res)"
proof -
  from assms obtain features P grn and X :: "real tensor3" and labels idx_train idx_val r where
    "train ops features P grn (hp_n_iters (hyperparameters (parse_args cl)))
       (hp_n_hids (hyperparameters (parse_args cl))) (hp_n_epochs (hyperparameters (parse_args cl)))
       X labels (hp_lr (hyperparameters (parse_args cl)))
       (hp_wd (hyperparameters (parse_args cl))) (hp_ps (hyperparameters (parse_args cl)))
       idx_train idx_val = Inr r" and "trained res = r"
    unfolding script_def Let_def
    by (auto split: if_splits sum.splits prod.splits)
  then show ?thesis by blast
qed

lemma example_script_returns: "\<not> isl (script example_ops example_env example_cmdline)"
  by code_simp

text \<open>
  Claim C8: the script assigns \<open>n_epochs\<close> from the argument \<^verbatim>\<open>--n_iter\<close>, the same value
  as \<open>n_iters\<close>, which is 9 when the command line does not give it; no other argument
  enters. So the lists that \<^verbatim>\<open>train\<close> returns to the script have at most \<open>n_iter\<close>
  entries, at most 9 under the defaults.
\<close>

theorem epoch_budget:
  "hp_n_epochs (hyperparameters (parse_args cl)) = arg_n_iter (parse_args cl) \<and>
   hp_n_epochs (hyperparameters (parse_args cl)) = hp_n_iters (hyperparameters (parse_args cl)) \<and>
   arg_n_iter (parse_args cl) = (case opt_n_iter cl of None \<Rightarrow> 9 | Some n \<Rightarrow> n) \<and>
   (script ops env cl = Inr res \<longrightarrow>
      length (l_train (trained res)) \<le> nat (arg_n_iter (parse_args cl)) \<and>
      length (l_val (trained res)) \<le> nat (arg_n_iter (parse_args cl)) \<and>
      length (acc_val (trained res)) \<le> nat (arg_n_iter (parse_args cl))) \<and>
   (script ops env cl = Inr res \<and> opt_n_iter cl = None \<longrightarrow>
      length (l_train (trained res)) \<le> 9)"
proof -
  have a: "hp_n_epochs (hyperparameters (parse_args cl)) = arg_n_iter (parse_args cl)"
    and b: "hp_n_epochs (hyperparameters (parse_args cl)) = hp_n_iters (hyperparameters (parse_args cl))"
    by (simp_all add: hyperparameters_def)
  have c: "arg_n_iter (parse_args cl) = (case opt_n_iter cl of None \<Rightarrow> 9 | Some n \<Rightarrow> n)"
    by (simp add: parse_args_def with_default_def)
  have d: "length (l_train (trained res)) \<le> nat (arg_n_iter (parse_args cl)) \<and>
      length (l_val (trained res)) \<le> nat (arg_n_iter (parse_args cl)) \<and>
      length (acc_val (trained res)) \<le> nat (arg_n_iter (parse_args cl))"
    if "script ops env cl = Inr res"
  proof -
    from script_train[OF that] obtain features P grn and X :: "real tensor3"
      and labels idx_train idx_val where
      "train ops features P grn (hp_n_iters (hyperparameters (parse_args cl)))
       (hp_n_hids (hyperparameters (parse_args cl))) (hp_n_epochs (hyperparameters (parse_args cl)))
       X labels (hp_lr (hyperparameters (parse_args cl)))
       (hp_wd (hyperparameters (parse_args cl))) (hp_ps (hyperparameters (parse_args cl)))
       idx_train idx_val = Inr (trained res)"
      by blast
    from train_run[OF this] obtain oss where
      n: "length oss \<le> nat (hp_n_epochs (hyperparameters (parse_args cl)))"
      and l: "l_train (trained res) = map (train_loss_of ops labels idx_train) oss"
        "l_val (trained res) = map (val_loss_of ops labels idx_val) oss"
        "map Inr (acc_val (trained res)) = map (val_acc_of labels idx_val) oss"
      by blast
    from l(3) have "length (map Inr (acc_val (trained res)) :: (error + pyfloat) list) = length oss"
      by simp
    then have "length (acc_val (trained res)) = length oss" by simp
    with n l(1,2) a show ?thesis by simp
  qed
  have e: "length (l_train (trained res)) \<le> 9"
    if "script ops env cl = Inr res \<and> opt_n_iter cl = None"
    using d that c by simp
  from a b c d e show ?thesis by blast
qed

theorem epoch_budget_witness:
  "\<not> isl (script example_ops example_env example_cmdline) \<and>
   opt_n_iter example_cmdline = None \<and>
   hp_n_epochs (hyperparameters (parse_args example_cmdline)) = 9 \<and>
   length (l_train (trained (projr (script example_ops example_env example_cmdline)))) \<le> 9"
proof -
  let ?res = "projr (script example_ops example_env example_cmdline)"
  have e: "script example_ops example_env example_cmdline = Inr ?res"
    using example_script_returns by simp
  have n: "opt_n_iter example_cmdline = None"
    by (simp add: example_cmdline_def)
  from epoch_budget[of example_cmdline example_ops example_env ?res] e n example_script_returns
  show ?thesis by simp
qed

section \<open>The accuracy\<close>

lemma argmax_from_first_max:
  assumes "b < length pre" and "i = length pre" and "v = pre ! b"
    and "\<forall>j<length pre. pre ! j \<le> v" and "\<forall>j<b. pre ! j < v"
  shows "argmax_from xs i b v < length (pre @ xs) \<and>
     (\<forall>j<length (pre @ xs). (pre @ xs) ! j \<le> (pre @ xs) ! argmax_from xs i b v) \<and>
     (\<forall>j<argmax_from xs i b v. (pre @ xs) ! j < (pre @ xs) ! argmax_from xs i b v)"
  using assms
proof (induction xs arbitrary: pre i b v)
  case Nil
  then show ?case by simp
next
  case (Cons x xs)
  show ?case
  proof (cases "v < x")
    case True
    have "argmax_from xs (Suc i) i x < length ((pre @ [x]) @ xs) \<and>
     (\<forall>j<length ((pre @ [x]) @ xs). ((pre @ [x]) @ xs) ! j \<le> ((pre @ [x]) @ xs) ! argmax_from xs (Suc i) i x) \<and>
     (\<forall>j<argmax_from xs (Suc i) i x. ((pre @ [x]) @ xs) ! j < ((pre @ [x]) @ xs) ! argmax_from xs (Suc i) i x)"
    proof (rule Cons.IH)
      show "\<forall>j<length (pre @ [x]). (pre @ [x]) ! j \<le> x"
        using Cons.prems True by (auto simp: nth_append less_Suc_eq intro: less_imp_le order_trans)
      show "\<forall>j<i. (pre @ [x]) ! j < x"
        using Cons.prems True by (auto simp: nth_append intro: le_less_trans)
    qed (use Cons.prems in \<open>simp_all add: nth_append\<close>)
    with True show ?thesis by simp
  next
    case False
    have "argmax_from xs (Suc i) b v < length ((pre @ [x]) @ xs) \<and>
     (\<forall>j<length ((pre @ [x]) @ xs). ((pre @ [x]) @ xs) ! j \<le> ((pre @ [x]) @ xs) ! argmax_from xs (Suc i) b v) \<and>
     (\<forall>j<argmax_from xs (Suc i) b v. ((pre @ [x]) @ xs) ! j < ((pre @ [x]) @ xs) ! argmax_from xs (Suc i) b v)"
    proof (rule Cons.IH)
      show "\<forall>j<length (pre @ [x]). (pre @ [x]) ! j \<le> v"
        using Cons.prems False by (auto simp: nth_append less_Suc_eq)
      show "\<forall>j<b. (pre @ [x]) ! j < v"
        using Cons.prems by (auto simp: nth_append)
    qed (use Cons.prems in \<open>simp_all add: nth_append\<close>)
    with False show ?thesis by simp
  qed
qed

lemma argmax_first_max:
  assumes "r \<noteq> []"
  shows "argmax r < length r \<and> (\<forall>j<length r. r ! j \<le> r ! argmax r) \<and>
     (\<forall>j<argmax r. r ! j < r ! argmax r)"
proof -
  from assms obtain x xs where r: "r = x # xs" by (cases r) simp_all
  from argmax_from_first_max[of 0 "[x]" 1 x xs] show ?thesis
    by (simp add: r argmax_def)
qed

lemma sum_list_indicator:
  "sum_list (map (\<lambda>b. if b then 1 else 0) (map f is)) = real (length (filter f is))"
  by (induction "is") simp_all

lemma map2_eq_indices:
  assumes "length ps = length ls"
  shows "map2 (=) ps ls = map (\<lambda>i. ps ! i = ls ! i) [0..<length ls]"
  using assms by (intro nth_equalityI) simp_all

lemma accuracy_count:
  assumes "wf2 output" and "shape0 output = length labels" and "0 < shape1 output"
    and "labels \<noteq> []"
  shows "accuracy output labels =
     Inr (Float (real (length (filter (\<lambda>i. int (argmax (rows output ! i)) = labels ! i)
                                 [0..<length labels])) / real (length labels)))"
proof -
  have len: "length (rows output) = length labels"
    using assms by (simp add: wf2_def)
  have "map2 (=) (map int (map argmax (rows output))) labels =
      map (\<lambda>i. map int (map argmax (rows output)) ! i = labels ! i) [0..<length labels]"
    using len by (intro map2_eq_indices) simp
  also have "\<dots> = map (\<lambda>i. int (argmax (rows output ! i)) = labels ! i) [0..<length labels]"
    using len by simp
  finally have "sum_list (map (\<lambda>b. if b then 1 else 0)
        (map2 (=) (map int (map argmax (rows output))) labels)) =
      real (length (filter (\<lambda>i. int (argmax (rows output ! i)) = labels ! i) [0..<length labels]))"
    by (simp only: sum_list_indicator)
  then show ?thesis
    using assms len
    by (simp add: accuracy_def max1_indices_def eq_broadcast_def Let_def)
qed

text \<open>
  Claim C7: for a score matrix with at least one class column and a label vector that is
  not empty and has one label per row, \<^verbatim>\<open>accuracy\<close> returns the number of rows whose
  arg-max class index is the label of the row, divided by the number of labels, a value
  in the interval from 0 to 1. The arg-max index of a row is the first index at which
  the row has its largest entry.
\<close>

theorem accuracy_fraction:
  assumes "wf2 output" and "shape0 output = length labels" and "0 < shape1 output"
    and "labels \<noteq> []"
  shows "accuracy output labels =
     Inr (Float (real (length (filter (\<lambda>i. int (argmax (rows output ! i)) = labels ! i)
                                 [0..<length labels])) / real (length labels))) \<and>
   (\<exists>a. accuracy output labels = Inr (Float a) \<and> 0 \<le> a \<and> a \<le> 1) \<and>
   (\<forall>i<length labels.
      argmax (rows output ! i) < shape1 output \<and>
      (\<forall>j<shape1 output. rows output ! i ! j \<le> rows output ! i ! argmax (rows output ! i)) \<and>
      (\<forall>j<argmax (rows output ! i). rows output ! i ! j < rows output ! i ! argmax (rows output ! i)))"
proof (intro conjI allI impI)
  let ?c = "length (filter (\<lambda>i. int (argmax (rows output ! i)) = labels ! i) [0..<length labels])"
  show eq: "accuracy output labels = Inr (Float (real ?c / real (length labels)))"
    using assms by (rule accuracy_count)
  have "?c \<le> length [0..<length labels]" by (rule length_filter_le)
  then have "real ?c \<le> real (length labels)" by simp
  moreover have "0 < real (length labels)" using assms(4) by simp
  ultimately have "0 \<le> real ?c / real (length labels) \<and> real ?c / real (length labels) \<le> 1"
    by (simp add: divide_le_eq_1)
  with eq show "\<exists>a. accuracy output labels = Inr (Float a) \<and> 0 \<le> a \<and> a \<le> 1"
    by blast
next
  fix i assume i: "i < length labels"
  then have r: "rows output ! i \<noteq> []" "length (rows output ! i) = shape1 output"
    using assms by (auto simp: wf2_def list_all_length)
  from argmax_first_max[OF r(1)] r(2)
  show "argmax (rows output ! i) < shape1 output"
    and "\<And>j. j < shape1 output \<Longrightarrow> rows output ! i ! j \<le> rows output ! i ! argmax (rows output ! i)"
    and "\<And>j. j < argmax (rows output ! i) \<Longrightarrow>
           rows output ! i ! j < rows output ! i ! argmax (rows output ! i)"
    by simp_all
qed

theorem accuracy_fraction_witness:
  "wf2 \<lparr>shape0 = 2, shape1 = 3, rows = [[1, 3, 3], [0, 0, 0::real]]\<rparr> \<and>
   accuracy \<lparr>shape0 = 2, shape1 = 3, rows = [[1, 3, 3], [0, 0, 0]]\<rparr> [1, 2] = Inr (Float (1 / 2)) \<and>
   argmax [1, 3, 3] = 1"
proof -
  let ?o = "\<lparr>shape0 = 2, shape1 = 3, rows = [[1, 3, 3], [0, 0, 0::real]]\<rparr>"
  have h: "wf2 ?o" "shape0 ?o = length [1, 2::int]" "0 < shape1 ?o" "[1, 2::int] \<noteq> []"
    by (simp_all add: wf2_def)
  have c: "length (filter (\<lambda>i. int (argmax (rows ?o ! i)) = [1, 2] ! i) [0..<length [1, 2::int]]) = 1"
    by code_simp
  have a: "argmax [1, 3, 3] = 1" by code_simp
  from accuracy_fraction[OF h] have
    "accuracy ?o [1, 2] = Inr (Float (real (length (filter (\<lambda>i. int (argmax (rows ?o ! i)) = [1, 2] ! i)
        [0..<length [1, 2::int]])) / real (length [1, 2::int])))"
    by blast
  with c have "accuracy ?o [1, 2] = Inr (Float (1 / 2))" by simp
  with h a show ?thesis by simp
qed

end
